theory Spec2Isabelle
  imports Complex_Main "HOL-Library.Char_ord" "HOL-Library.List_Lexorder" "HOL-Library.Sublist"
begin

section \<open>Modelling conventions\<close>

text \<open>
  The development embeds the scoring-and-explanation engine of the repository
  (\<^verbatim>\<open>app/model.py\<close>, \<^verbatim>\<open>app/factcheck.py\<close> and the \<^verbatim>\<open>verify\<close> route of
  \<^verbatim>\<open>app/main.py\<close>).

  \<^item> A Python \<^verbatim>\<open>float\<close> is modelled as an exact rational number (\<open>rat\<close>): the
    decimal constants of the source (0.03, 0.12, 0.2, ...) denote themselves and
    the rounding error of binary floating point is not modelled.
  \<^item> A Python \<^verbatim>\<open>str\<close> is modelled as a \<open>string\<close> (a list of 8-bit characters)
    read as ASCII text: a character with a code above 127 has no case and is not
    white space. The three non-ASCII characters that occur in literals of the
    source (an em dash, an ellipsis and the sign for "approximately") are written
    as their UTF-8 bytes.
  \<^item> Python's \<^verbatim>\<open>int\<close> is \<open>int\<close>; a \<^verbatim>\<open>None\<close>-able value is an \<open>option\<close>; an
    exception that leaves a function is the \<open>Inl\<close> branch of a sum.
\<close>

section \<open>Strings\<close>

definition is_upper :: "char \<Rightarrow> bool" where
  \<comment> \<open>\<^verbatim>\<open>c.isupper()\<close> on an ASCII character\<close>
  "is_upper c = (let n = (of_char c :: nat) in 65 \<le> n \<and> n \<le> 90)"

definition is_alpha :: "char \<Rightarrow> bool" where
  \<comment> \<open>the character class \<^verbatim>\<open>[a-zA-Z]\<close>\<close>
  "is_alpha c = (let n = (of_char c :: nat) in (65 \<le> n \<and> n \<le> 90) \<or> (97 \<le> n \<and> n \<le> 122))"

definition is_space :: "char \<Rightarrow> bool" where
  \<comment> \<open>\<^verbatim>\<open>c.isspace()\<close> and the class \<^verbatim>\<open>\s\<close> on ASCII: tab, line feed, vertical tab,
      form feed, carriage return, the four separators 28 to 31, and the blank\<close>
  "is_space c = (let n = (of_char c :: nat) in (9 \<le> n \<and> n \<le> 13) \<or> (28 \<le> n \<and> n \<le> 32))"

definition lower_char :: "char \<Rightarrow> char" where
  "lower_char c = (if is_upper c then char_of ((of_char c :: nat) + 32) else c)"

definition lower :: "string \<Rightarrow> string" where
  \<comment> \<open>\<^verbatim>\<open>s.lower()\<close>\<close>
  "lower s = map lower_char s"

definition strip :: "string \<Rightarrow> string" where
  \<comment> \<open>\<^verbatim>\<open>s.strip()\<close>\<close>
  "strip s = rev (dropWhile is_space (rev (dropWhile is_space s)))"

fun contains :: "string \<Rightarrow> string \<Rightarrow> bool" where
  \<comment> \<open>\<open>contains x s\<close> is Python's \<^verbatim>\<open>x in s\<close> for strings\<close>
  "contains x [] = (x = [])"
| "contains x (c # cs) = (prefix x (c # cs) \<or> contains x cs)"

fun findall_run :: "string \<Rightarrow> string \<Rightarrow> string list" where
  \<comment> \<open>the scan of \<^verbatim>\<open>re.findall(r"[a-zA-Z]+", s)\<close>; the first argument is the run of
      letters read so far\<close>
  "findall_run cur [] = (if cur = [] then [] else [cur])"
| "findall_run cur (c # cs) =
     (if is_alpha c then findall_run (cur @ [c]) cs
      else if cur = [] then findall_run [] cs
      else cur # findall_run [] cs)"

definition findall_alpha :: "string \<Rightarrow> string list" where
  "findall_alpha s = findall_run [] s"

fun join :: "string \<Rightarrow> string list \<Rightarrow> string" where
  \<comment> \<open>\<^verbatim>\<open>sep.join(xs)\<close>\<close>
  "join sep [] = []"
| "join sep [x] = x"
| "join sep (x # y # ys) = x @ sep @ join sep (y # ys)"

section \<open>Numbers\<close>

definition py_round :: "rat \<Rightarrow> int" where
  \<comment> \<open>\<^verbatim>\<open>round(x)\<close>: the nearest integer, a tie going to the even neighbour\<close>
  "py_round x =
     (let f = \<lfloor>x\<rfloor>; d = x - of_int f
      in if d < 1 / 2 then f
         else if 1 / 2 < d then f + 1
         else if even f then f else f + 1)"

definition py_round_nd :: "rat \<Rightarrow> nat \<Rightarrow> rat" where
  \<comment> \<open>\<^verbatim>\<open>round(x, n)\<close>\<close>
  "py_round_nd x n = of_int (py_round (x * 10 ^ n)) / 10 ^ n"

section \<open>Signal extractor (\<^verbatim>\<open>_text_red_flags\<close>)\<close>

definition SENSATIONAL :: "string list" where
  "SENSATIONAL =
     [''shocking'', ''unbelievable'', ''exposed'', ''scandal'', ''meltdown'', ''destroyed'',
      ''bombshell'', ''secretly'', ''banned'', ''miracle'', ''cure'', ''guaranteed'', ''instant'']"

definition caps_ratio :: "string \<Rightarrow> rat" where
  "caps_ratio s = of_nat (length (filter is_upper s)) / of_nat (max 1 (length s))"

definition exclam_count :: "string \<Rightarrow> nat" where
  "exclam_count s = count_list s (CHR ''!'')"

definition sensational_words :: "string \<Rightarrow> string list" where
  \<comment> \<open>\<^verbatim>\<open>[w for w in re.findall(r"[a-zA-Z]+", text.lower()) if w in SENSATIONAL]\<close>\<close>
  "sensational_words text = filter (\<lambda>w. w \<in> set SENSATIONAL) (findall_alpha (lower text))"

definition sensational_hits :: "string \<Rightarrow> nat" where
  "sensational_hits text = length (sensational_words text)"

definition text_red_flags :: "string \<Rightarrow> rat" where
  "text_red_flags text =
     (let penalty0 = 0;
          penalty1 = (if 0.12 < caps_ratio text then penalty0 + 0.2 else penalty0);
          penalty2 = (if 3 \<le> exclam_count text then penalty1 + 0.15 else penalty1);
          penalty3 = penalty2 + min 0.25 (of_nat (sensational_hits text) * 0.05)
      in min 0.6 penalty3)"

section \<open>Data of the language-analysis provider\<close>

record entity =
  ent_name :: string
  ent_type :: string
  ent_salience :: rat
  ent_metadata :: "(string \<times> string) list"

record sentiment =
  sent_truthy :: bool \<comment> \<open>the truth value Python gives the object in \<^verbatim>\<open>if sentiment:\<close>\<close>
  sent_magnitude :: rat

record category =
  cat_name :: string

record sentiment_response =
  document_sentiment :: sentiment
  resp_sentences :: "(string \<times> rat) list" \<comment> \<open>text content and magnitude of each sentence\<close>

text \<open>
  The client of the provider. \<open>client\<close> tells whether \<^verbatim>\<open>_client()\<close> returned a
  client; each call takes the document content (and the language code, \<open>None\<close>
  for auto-detection) and returns \<open>None\<close> when the call raises.
\<close>

record provider =
  client :: bool
  analyze_sentiment :: "string \<Rightarrow> string option \<Rightarrow> sentiment_response option"
  analyze_entities :: "string \<Rightarrow> entity list option"
  client_classify_text :: "string \<Rightarrow> category list option"

datatype error = ProviderError

section \<open>Results\<close>

record key_entity =
  ke_name :: string
  ke_type :: string
  ke_salience :: rat
  ke_wikipedia_url :: "string option"
  ke_mid :: "string option"

record features =
  sensational_penalty :: rat
  sentiment_magnitude :: rat
  entity_wiki_hits :: int
  categories :: "string list"

record insights =
  key_entities :: "key_entity list"
  sensational_terms :: "string list"
  notable_sentences :: "string list"

record result =
  label :: string
  score :: int
  confidence :: rat
  features :: features
  insights :: insights

section \<open>The classifier (\<^verbatim>\<open>app/model.py\<close>)\<close>

definition is_sentence_end :: "char \<Rightarrow> bool" where
  \<comment> \<open>the class \<^verbatim>\<open>[.!?]\<close>\<close>
  "is_sentence_end c = (c = CHR ''.'' \<or> c = CHR ''!'' \<or> c = CHR ''?'')"

function split_run :: "bool \<Rightarrow> string \<Rightarrow> string \<Rightarrow> string list" where
  \<comment> \<open>the scan of \<^verbatim>\<open>re.split(r'(?<=[.!?])\s+', s)\<close>: the flag tells whether the
      character before the position ends a sentence, the second argument is the
      piece read so far\<close>
  "split_run after_end cur [] = [cur]"
| "split_run after_end cur (c # cs) =
     (if after_end \<and> is_space c then cur # split_run False [] (dropWhile is_space cs)
      else split_run (is_sentence_end c) (cur @ [c]) cs)"
  by pat_completeness auto
termination
  by (relation "measure (\<lambda>(a, cur, s). length s)")
     (auto simp: le_imp_less_Suc length_dropWhile_le)

definition split_sentences :: "string \<Rightarrow> string list" where
  "split_sentences text = split_run False [] (strip text)"

definition grounded :: "entity \<Rightarrow> bool" where
  \<comment> \<open>\<^verbatim>\<open>("wikipedia_url" in md) or ("mid" in md)\<close>\<close>
  "grounded e =
     (''wikipedia_url'' \<in> set (map fst (ent_metadata e)) \<or> ''mid'' \<in> set (map fst (ent_metadata e)))"

fun entity_quality_loop :: "rat \<Rightarrow> entity list \<Rightarrow> rat" where
  "entity_quality_loop sc [] = sc"
| "entity_quality_loop sc (e # es) =
     entity_quality_loop (if grounded e then sc + 0.03 else sc) es"

definition entity_quality :: "entity list \<Rightarrow> rat" where
  "entity_quality entities = min 0.3 (entity_quality_loop 0 (take 25 entities))"

definition analyze ::
  "provider \<Rightarrow> string \<Rightarrow> string \<Rightarrow>
   error + (sentiment \<times> (string \<times> rat) list \<times> entity list \<times> category list) option" where
  \<comment> \<open>\<open>Inr None\<close> is the tuple \<^verbatim>\<open>(None, [], [])\<close>; \<open>Inl\<close> is an exception that
      leaves \<^verbatim>\<open>_analyze\<close> (the entities call is not guarded)\<close>
  "analyze p text language_code =
     (if \<not> client p then Inr None
      else
        let content = take 20000 text;
            sresp = (case analyze_sentiment p content (Some language_code) of
                       Some r \<Rightarrow> Some r
                     | None \<Rightarrow> analyze_sentiment p content None)
        in case sresp of
             None \<Rightarrow> Inr None
           | Some r \<Rightarrow>
               (case analyze_entities p content of
                  None \<Rightarrow> Inl ProviderError
                | Some entities \<Rightarrow>
                    let cats = (case client_classify_text p content of
                                  Some cs \<Rightarrow> cs
                                | None \<Rightarrow> [])
                    in Inr (Some (document_sentiment r, resp_sentences r, entities, cats))))"

definition shout_bonus :: "string \<Rightarrow> rat" where
  \<comment> \<open>\<^verbatim>\<open>(0.8 if exclam >= 1 else 0.0) + (0.8 if caps_ratio > 0.12 else 0.0)\<close>\<close>
  "shout_bonus s =
     (if 1 \<le> exclam_count s then 0.8 else 0) + (if 0.12 < caps_ratio s then 0.8 else 0)"

definition to_key_entity :: "entity \<Rightarrow> key_entity" where
  "to_key_entity e =
     \<lparr>ke_name = ent_name e, ke_type = ent_type e, ke_salience = ent_salience e,
      ke_wikipedia_url = map_of (ent_metadata e) ''wikipedia_url'',
      ke_mid = map_of (ent_metadata e) ''mid''\<rparr>"

definition collect_insights :: "string \<Rightarrow> (string \<times> rat) list \<Rightarrow> entity list \<Rightarrow> insights" where
  "collect_insights text sentences entities =
     (let kes = map to_key_entity (take 8 (sort_key (\<lambda>x. - ent_salience x) entities));
          ws = findall_alpha (lower text);
          terms = take 10 (sort (remdups (filter (\<lambda>w. w \<in> set SENSATIONAL) ws)));
          candidates0 = map (\<lambda>(s, mag). (mag + shout_bonus s, strip s)) sentences;
          candidates =
            (if candidates0 = []
             then map (\<lambda>s. (shout_bonus s, strip s)) (take 8 (split_sentences text))
             else candidates0);
          notables = filter (\<lambda>s. s \<noteq> []) (map snd (take 3 (sort_key (\<lambda>x. - fst x) candidates)))
      in \<lparr>key_entities = kes, sensational_terms = terms, notable_sentences = notables\<rparr>)"

definition fallback_result :: "string \<Rightarrow> result" where
  \<comment> \<open>the dictionary returned when the analysis is unavailable\<close>
  "fallback_result text =
     (let penalty = text_red_flags text
      in \<lparr>label = ''uncertain'', score = 50, confidence = 0.3,
          features = \<lparr>sensational_penalty = penalty, sentiment_magnitude = 0,
                      entity_wiki_hits = 0, categories = []\<rparr>,
          insights = \<lparr>key_entities = [],
                      sensational_terms = take 10 (sensational_words text),
                      notable_sentences = take 2 (split_sentences text)\<rparr>\<rparr>)"

definition credible_category :: "string \<Rightarrow> bool" where
  \<comment> \<open>\<^verbatim>\<open>("news" in c) or ("law & government" in c) or ("business" in c)\<close>\<close>
  "credible_category c =
     (contains ''news'' c \<or> contains ''law & government'' c \<or> contains ''business'' c)"

definition heuristic_score :: "string \<Rightarrow> sentiment \<Rightarrow> entity list \<Rightarrow> category list \<Rightarrow> int" where
  "heuristic_score text sent entities cats =
     (let score0 = 50;
          score1 = (if cats \<noteq> [] \<and> list_ex credible_category (map (\<lambda>c. lower (cat_name c)) cats)
                    then score0 + 5 else score0);
          score2 = score1 + entity_quality entities * 100;
          score3 = (if sent_truthy sent then score2 - min 20 (sent_magnitude sent * 3) else score2);
          penalty = text_red_flags text;
          score4 = score3 - penalty * 100
      in max 0 (min 100 (py_round score4)))"

definition label_of :: "int \<Rightarrow> string" where
  "label_of sc = (if 70 \<le> sc then ''true'' else if sc \<le> 30 then ''fake'' else ''uncertain'')"

definition heuristic_result ::
  "string \<Rightarrow> sentiment \<Rightarrow> (string \<times> rat) list \<Rightarrow> entity list \<Rightarrow> category list \<Rightarrow> result" where
  \<comment> \<open>the part of \<^verbatim>\<open>classify_text\<close> after the analysis has succeeded\<close>
  "heuristic_result text sent sentences entities cats =
     (let sc = heuristic_score text sent entities cats;
          conf = py_round_nd (of_int \<bar>sc - 50\<bar> / 50) 2;
          ins = collect_insights text sentences entities;
          fs = \<lparr>sensational_penalty = py_round_nd (text_red_flags text) 3,
                sentiment_magnitude = (if sent_truthy sent then sent_magnitude sent else 0),
                entity_wiki_hits = min 25 (int (length (filter grounded (take 25 entities)))),
                categories = take 5 (map cat_name cats)\<rparr>
      in \<lparr>label = label_of sc, score = sc, confidence = conf, features = fs, insights = ins\<rparr>)"

definition classify_text :: "provider \<Rightarrow> string \<Rightarrow> string \<Rightarrow> error + result" where
  \<comment> \<open>the unused parameter \<^verbatim>\<open>model_name\<close> is left out\<close>
  "classify_text p text language_code =
     (case analyze p text language_code of
        Inl e \<Rightarrow> Inl e
      | Inr None \<Rightarrow> Inr (fallback_result text)
      | Inr (Some (sent, sentences, entities, cats)) \<Rightarrow>
          Inr (heuristic_result text sent sentences entities cats))"

section \<open>Fact-check summary (\<^verbatim>\<open>app/factcheck.py\<close>)\<close>

record review =
  publisher_name :: "string option" \<comment> \<open>\<open>None\<close> when the publisher or its name is missing\<close>
  review_title :: "string option"
  textRating :: "string option"
  review_url :: "string option"

record claim =
  claimReview :: "review list" \<comment> \<open>empty when the key is missing\<close>

definition em_dash :: string where
  "em_dash = [CHR 0xE2, CHR 0x80, CHR 0x94]"

definition FAKE_WORDS :: "string list" where
  "FAKE_WORDS = [''false'', ''fake'', ''pants on fire'', ''incorrect'', ''misleading'']"

definition TRUE_WORDS :: "string list" where
  "TRUE_WORDS = [''true'', ''correct'', ''mostly true'', ''accurate'']"

definition py_or :: "string option \<Rightarrow> string \<Rightarrow> string" where
  \<comment> \<open>\<^verbatim>\<open>v or d\<close> for a string that may be \<^verbatim>\<open>None\<close>\<close>
  "py_or v d = (case v of None \<Rightarrow> d | Some x \<Rightarrow> if x = [] then d else x)"

definition rating_of :: "review \<Rightarrow> string" where
  \<comment> \<open>\<^verbatim>\<open>(r.get("textRating") or "").lower()\<close>\<close>
  "rating_of r = lower (py_or (textRating r) [])"

definition summary_line :: "review \<Rightarrow> string" where
  "summary_line r =
     (let publisher = (case publisher_name r of Some n \<Rightarrow> n | None \<Rightarrow> ''Unknown'');
          title = (case review_title r of Some t \<Rightarrow> t | None \<Rightarrow> []);
          rating = rating_of r;
          url = (case review_url r of Some u \<Rightarrow> u | None \<Rightarrow> [])
      in publisher @ '': '' @ rating @ '' '' @ em_dash @ '' '' @ title @ '' ('' @ url @ '')'')"

definition rate :: "string option \<Rightarrow> string \<Rightarrow> string option" where
  \<comment> \<open>the two \<^verbatim>\<open>if\<close> statements that update the verdict for one rating\<close>
  "rate verdict rating =
     (let verdict1 = (if list_ex (\<lambda>x. contains x rating) FAKE_WORDS
                      then Some ''fake'' else verdict);
          verdict2 = (if list_ex (\<lambda>x. contains x rating) TRUE_WORDS
                      then Some (py_or verdict1 ''true'') else verdict1)
      in verdict2)"

fun review_loop :: "string list \<times> string option \<Rightarrow> review list \<Rightarrow> string list \<times> string option" where
  "review_loop st [] = st"
| "review_loop (summary, verdict) (r # rs) =
     review_loop (summary @ [summary_line r], rate verdict (rating_of r)) rs"

fun claims_loop :: "string list \<times> string option \<Rightarrow> claim list \<Rightarrow> string list \<times> string option" where
  "claims_loop st [] = st"
| "claims_loop st (c # cs) = claims_loop (review_loop st (claimReview c)) cs"

definition summarize_claims :: "claim list \<Rightarrow> string option \<times> string list" where
  "summarize_claims claims =
     (if claims = [] then (None, [])
      else let (summary, verdict) = claims_loop ([], None) (take 5 claims)
           in (Some (py_or verdict ''uncertain''), summary))"

section \<open>Formatting\<close>

definition digit_char :: "nat \<Rightarrow> char" where
  "digit_char d = char_of (48 + d)"

function str_nat :: "nat \<Rightarrow> string" where
  "str_nat n = (if n < 10 then [digit_char n] else str_nat (n div 10) @ [digit_char (n mod 10)])"
  by pat_completeness auto
termination
  by (relation "measure id") auto

declare str_nat.simps [simp del]

definition str_int :: "int \<Rightarrow> string" where
  \<comment> \<open>\<^verbatim>\<open>f"{i}"\<close> for an integer\<close>
  "str_int i = (if i < 0 then ''-'' @ str_nat (nat (- i)) else str_nat (nat i))"

definition fmt_2f :: "rat \<Rightarrow> string" where
  \<comment> \<open>\<^verbatim>\<open>f"{x:.2f}"\<close>\<close>
  "fmt_2f x =
     (let n = nat (py_round (\<bar>x\<bar> * 100))
      in (if x < 0 then ''-'' else []) @ str_nat (n div 100) @ ''.''
         @ [digit_char (n mod 100 div 10), digit_char (n mod 10)])"

definition ellipsis :: string where
  "ellipsis = [CHR 0xE2, CHR 0x80, CHR 0xA6]"

definition approx_sign :: string where
  "approx_sign = [CHR 0xE2, CHR 0x89, CHR 0x88]"

section \<open>The explanation (step 2 of \<^verbatim>\<open>verify\<close> in \<^verbatim>\<open>app/main.py\<close>)\<close>

definition shorten :: "string \<Rightarrow> string" where
  \<comment> \<open>\<^verbatim>\<open>c.split("/")[-1] if "/" in c else c\<close>\<close>
  "shorten c =
     (if CHR ''/'' \<in> set c then rev (takeWhile (\<lambda>x. x \<noteq> CHR ''/'') (rev c)) else c)"

fun cats_loop :: "string set \<Rightarrow> string list \<Rightarrow> string list \<Rightarrow> string list" where
  \<comment> \<open>the loop over \<^verbatim>\<open>raw_cats\<close>, from the state \<^verbatim>\<open>seen_cat\<close>, \<^verbatim>\<open>cats\<close>\<close>
  "cats_loop seen_cat cats [] = cats"
| "cats_loop seen_cat cats (c # rest) =
     (if c = [] then cats_loop seen_cat cats rest
      else
        let short = shorten c;
            key = lower short;
            seen_cat' = (if key \<notin> seen_cat then insert key seen_cat else seen_cat);
            cats' = (if key \<notin> seen_cat then cats @ [short] else cats)
        in if 3 \<le> length cats' then cats' else cats_loop seen_cat' cats' rest)"

fun fromkeys_loop :: "'a list \<Rightarrow> 'a list \<Rightarrow> 'a list" where
  "fromkeys_loop ks [] = ks"
| "fromkeys_loop ks (x # xs) = fromkeys_loop (if x \<in> set ks then ks else ks @ [x]) xs"

definition dict_fromkeys :: "'a list \<Rightarrow> 'a list" where
  \<comment> \<open>\<^verbatim>\<open>list(dict.fromkeys(xs))\<close>: the keys in the order of their first insertion\<close>
  "dict_fromkeys xs = fromkeys_loop [] xs"

definition truthy_str :: "string option \<Rightarrow> bool" where
  "truthy_str v = (case v of None \<Rightarrow> False | Some x \<Rightarrow> x \<noteq> [])"

definition display_name :: "key_entity \<Rightarrow> string" where
  "display_name e =
     (if truthy_str (ke_wikipedia_url e) then ke_name e @ '' (wiki)'' else ke_name e)"

fun names_loop :: "string set \<Rightarrow> string list \<Rightarrow> key_entity list \<Rightarrow> string list" where
  \<comment> \<open>the loop over \<^verbatim>\<open>ke\<close>, from the state \<^verbatim>\<open>seen\<close>, \<^verbatim>\<open>names\<close>\<close>
  "names_loop seen names [] = names"
| "names_loop seen names (e # rest) =
     (if ke_name e = [] then names_loop seen names rest
      else
        let k = lower (strip (ke_name e))
        in if k \<in> seen then names_loop seen names rest
           else
             let names' = names @ [display_name e]
             in if 4 \<le> length names' then names' else names_loop (insert k seen) names' rest)"

fun notables_loop :: "string set \<Rightarrow> string list \<Rightarrow> string list \<Rightarrow> string list" where
  \<comment> \<open>the loop over the notable sentences, from the state \<^verbatim>\<open>seen_lines\<close>, \<^verbatim>\<open>notables\<close>\<close>
  "notables_loop seen_lines notables [] = notables"
| "notables_loop seen_lines notables (s0 # rest) =
     (let s = strip s0
      in if s = [] then notables_loop seen_lines notables rest
         else
           let k = lower s
           in if k \<in> seen_lines then notables_loop seen_lines notables rest
              else
                let notables' = notables @ [s]
                in if 2 \<le> length notables' then notables'
                   else notables_loop (insert k seen_lines) notables' rest)"

definition penalty_line :: "rat \<Rightarrow> string" where
  "penalty_line pen = ''Sensational writing patterns detected (penalty '' @ fmt_2f pen @ '')''"

definition tone_line :: "rat \<Rightarrow> string" where
  "tone_line mag =
     ''High emotional tone (sentiment magnitude '' @ approx_sign @ '' '' @ fmt_2f mag @ '')''"

definition grounded_line :: "int \<Rightarrow> string" where
  "grounded_line wiki_hits =
     ''Grounded entities found: '' @ str_int wiki_hits @ '' linked to Wikipedia/Knowledge Graph''"

definition cats_line :: "string list \<Rightarrow> string" where
  "cats_line cats = ''Topical category hints: '' @ join '', '' cats"

definition names_line :: "string list \<Rightarrow> string" where
  "names_line names = ''Key entities: '' @ join '', '' names"

definition terms_line :: "string list \<Rightarrow> string" where
  "terms_line terms = ''Sensational terms in text: '' @ join '', '' terms"

definition notable_line :: "string \<Rightarrow> string" where
  "notable_line s =
     (let snippet = take 160 s @ (if 160 < length s then ellipsis else [])
      in ''Notable line: '' @ [CHR 0x22] @ snippet @ [CHR 0x22])"

definition generic_line :: string where
  "generic_line =
     ''Computed from entity grounding, sentiment magnitude, and sensational-text heuristics.''"

definition compose_explanation :: "features \<Rightarrow> insights \<Rightarrow> string list" where
  "compose_explanation f i =
     (let pen = sensational_penalty f;
          mag = sentiment_magnitude f;
          wiki_hits = entity_wiki_hits f;
          raw_cats = categories f;
          cats = cats_loop {} [] raw_cats;
          terms = take 6 (dict_fromkeys (sensational_terms i));
          names = names_loop {} [] (key_entities i);
          notables = notables_loop {} [] (notable_sentences i);
          e0 = [];
          e1 = (if 0 < pen then e0 @ [penalty_line pen] else e0);
          e2 = (if 1 \<le> mag then e1 @ [tone_line mag] else e1);
          e3 = (if 0 < wiki_hits then e2 @ [grounded_line wiki_hits] else e2);
          e4 = (if cats \<noteq> [] then e3 @ [cats_line cats] else e3);
          e5 = (if names \<noteq> [] then e4 @ [names_line names] else e4);
          e6 = (if terms \<noteq> [] then e5 @ [terms_line terms] else e5);
          e7 = e6 @ map notable_line notables
      in if e7 = [] then e7 @ [generic_line] else e7)"

section \<open>Merging the fact-check verdict and the route (steps 3 to 6 of \<^verbatim>\<open>verify\<close>)\<close>

definition merge_verdict ::
  "result \<Rightarrow> string list \<Rightarrow> string option \<Rightarrow> string list \<Rightarrow> result \<times> string list" where
  \<comment> \<open>step 4 and the extension of the explanation by the summary\<close>
  "merge_verdict res explanation fc_verdict fc_summary =
     (let (res1, explanation1) =
            (case fc_verdict of
               None \<Rightarrow> (res, explanation)
             | Some v \<Rightarrow>
                 if v \<noteq> [] \<and> v \<in> set [''true'', ''fake'']
                 then (res\<lparr>label := v, score := (if v = ''true'' then 85 else 15),
                           confidence := 0.9\<rparr>,
                       (''Fact Check verdict: '' @ v) # explanation)
                 else (res, explanation));
          explanation2 = (if fc_summary \<noteq> [] then explanation1 @ take 3 fc_summary
                          else explanation1)
      in (res1, explanation2))"

datatype db_outcome =
  Saved string \<comment> \<open>both documents were stored; the article's id\<close>
| ArticleFailed string \<comment> \<open>storing the article raised; the exception's class name\<close>
| VerificationFailed string string
    \<comment> \<open>the article was stored under the id, storing the verification raised\<close>

record verify_out =
  out_article_id :: "string option"
  out_score :: int
  out_label :: string
  out_confidence :: rat
  out_explanation :: "string list"
  out_features :: features
  out_insights :: insights

definition db_note :: "string \<Rightarrow> string" where
  "db_note cls = ''(Note: DB save skipped: '' @ cls @ '')''"

definition verify ::
  "provider \<Rightarrow> (string \<Rightarrow> claim list) \<Rightarrow> db_outcome \<Rightarrow> string \<Rightarrow> error + verify_out" where
  \<comment> \<open>\<open>fact_check_search\<close> is the search (it returns the empty list when it fails);
      the outcome of the two writes to the store is given\<close>
  "verify p fact_check_search db input =
     (let text = strip input;
          title = take 120 text;
          lang = ''en''
      in case classify_text p (title @ ''. '' @ text) lang of
           Inl e \<Rightarrow> Inl e
         | Inr res \<Rightarrow>
             let explanation = compose_explanation (features res) (insights res);
                 (fc_verdict, fc_summary) = summarize_claims (fact_check_search title);
                 (res1, explanation1) = merge_verdict res explanation fc_verdict fc_summary;
                 explanation2 = (if explanation1 = [] then explanation1 @ [generic_line]
                                 else explanation1);
                 article_id = (case db of
                                 Saved aid \<Rightarrow> Some aid
                               | ArticleFailed cls \<Rightarrow> None
                               | VerificationFailed aid cls \<Rightarrow> Some aid);
                 explanation3 = (case db of
                                   Saved aid \<Rightarrow> explanation2
                                 | ArticleFailed cls \<Rightarrow> explanation2 @ [db_note cls]
                                 | VerificationFailed aid cls \<Rightarrow> explanation2 @ [db_note cls])
             in Inr \<lparr>out_article_id = article_id, out_score = score res1,
                     out_label = label res1, out_confidence = confidence res1,
                     out_explanation = explanation3, out_features = features res1,
                     out_insights = insights res1\<rparr>)"

section \<open>The scorer as the specification words it\<close>



section \<open>Consistency of a result as the specification words it\<close>

definition spec_label_consistent :: "string \<Rightarrow> int \<Rightarrow> bool" where
  \<comment> \<open>"true" iff the score is at least 70, "fake" iff it is at most 30,
      "uncertain" otherwise\<close>
  "spec_label_consistent l sc =
     ((l = ''true'') = (70 \<le> sc) \<and> (l = ''fake'') = (sc \<le> 30)
      \<and> (l = ''uncertain'') = (30 < sc \<and> sc < 70))"

definition spec_confidence :: "int \<Rightarrow> rat" where
  \<comment> \<open>\<open>round(|score - 50| / 50, 2)\<close>\<close>
  "spec_confidence sc = py_round_nd (of_int \<bar>sc - 50\<bar> / 50) 2"

definition spec_consistent :: "result \<Rightarrow> bool" where
  "spec_consistent r =
     (spec_label_consistent (label r) (score r) \<and> confidence r = spec_confidence (score r))"

section \<open>The verdict of the fact-check summary as the specification words it\<close>





section \<open>The explanation as the specification words it\<close>

fun dedup_by :: "('a \<Rightarrow> 'k) \<Rightarrow> 'a list \<Rightarrow> 'a list" where
  \<comment> \<open>of the elements with the same key, the first one stays\<close>
  "dedup_by key [] = []"
| "dedup_by key (x # xs) = x # dedup_by key (filter (\<lambda>y. key y \<noteq> key x) xs)"








section \<open>Example inputs\<close>




definition c8_text :: string where
  "c8_text = ''BREAKING!!! Scientists SHOCKED by new miracle cure''"

definition no_claims_found :: "string \<Rightarrow> claim list" where
  \<comment> \<open>a fact-check search that finds nothing\<close>
  "no_claims_found title = []"

definition c8_explanation :: "string list" where
  "c8_explanation =
     [''Sensational writing patterns detected (penalty 0.55)'',
      ''Sensational terms in text: miracle, cure'',
      ''Notable line: '' @ [CHR 0x22] @ ''BREAKING!!!'' @ [CHR 0x22],
      ''Notable line: '' @ [CHR 0x22] @ ''Scientists SHOCKED by new miracle cure.'' @ [CHR 0x22]]"

definition c8_out :: "string \<Rightarrow> verify_out" where
  \<comment> \<open>the output of the route for \<open>c8_text\<close> when the provider is unavailable, no
      claim is found and the documents are stored under the given id\<close>
  "c8_out aid =
     \<lparr>out_article_id = Some aid, out_score = 50, out_label = ''uncertain'',
      out_confidence = 0.3, out_explanation = c8_explanation,
      out_features = \<lparr>sensational_penalty = 0.55, sentiment_magnitude = 0,
                      entity_wiki_hits = 0, categories = []\<rparr>,
      out_insights = \<lparr>key_entities = [],
                      sensational_terms = [''miracle'', ''cure'', ''miracle'', ''cure''],
                      notable_sentences =
                        [''BREAKING!!!'', ''Scientists SHOCKED by new miracle cure.'']\<rparr>\<rparr>"

definition ex_entities :: "entity list" where
  "ex_entities =
     [\<lparr>ent_name = ''Paris'', ent_type = ''LOCATION'', ent_salience = 0.6,
       ent_metadata = [(''wikipedia_url'', ''https://en.wikipedia.org/wiki/Paris'')]\<rparr>,
      \<lparr>ent_name = ''council'', ent_type = ''ORGANIZATION'', ent_salience = 0.3,
       ent_metadata = []\<rparr>,
      \<lparr>ent_name = ''Seine'', ent_type = ''LOCATION'', ent_salience = 0.1,
       ent_metadata = [(''mid'', ''/m/0f3vz'')]\<rparr>]"

definition ex_sentiment :: sentiment where
  "ex_sentiment = \<lparr>sent_truthy = True, sent_magnitude = 0.5\<rparr>"


definition ex_result :: result where
  \<comment> \<open>what the classifier returns for the text "Big news!" with \<open>ex_provider\<close>\<close>
  "ex_result =
     heuristic_result ''Big news!'' ex_sentiment [] ex_entities
       [\<lparr>cat_name = ''/News/Politics''\<rparr>]"

definition no_client_provider :: provider where
  \<comment> \<open>the client could not be created\<close>
  "no_client_provider =
     \<lparr>client = False,
      analyze_sentiment = (\<lambda>content lang. None),
      analyze_entities = (\<lambda>content. None),
      client_classify_text = (\<lambda>content. None)\<rparr>"


section \<open>Signal extractor: the penalty formula\<close>

lemma caps_ratio_Nil: "caps_ratio [] = 0"
  by (simp add: caps_ratio_def)



section \<open>Rounding\<close>

lemma py_round_of_int: "py_round (of_int n) = n"
  by (simp add: py_round_def)









lemma py_round_nd_fiftieths: "py_round_nd (of_int k / 50) 2 = of_int k / 50"
proof -
  have "of_int k / 50 * (10::rat) ^ 2 = of_int (2 * k)" by simp
  then have "py_round (of_int k / 50 * 10 ^ 2) = 2 * k"
    by (simp only: py_round_of_int)
  then show ?thesis by (simp add: py_round_nd_def)
qed

section \<open>The scorer\<close>









section \<open>The fallback\<close>

lemma analyze_unavailable:
  assumes "\<not> client p
           \<or> (analyze_sentiment p (take 20000 text) (Some lang) = None
              \<and> analyze_sentiment p (take 20000 text) None = None)"
  shows "analyze p text lang = Inr None"
  using assms by (auto simp: analyze_def Let_def)



section \<open>The verdict merger and the consistency of results\<close>

text \<open>
  C3. A verdict "true" or "fake" overwrites the label with the verdict, the score
  with 85 for "true" and 15 for "fake", the confidence with 0.9, and puts the line
  "Fact Check verdict: " followed by the verdict at position 0 of the explanation;
  any other verdict, or none, leaves the result as it is. In every case the first
  three lines of the summary (at most three) are appended at the end.
\<close>

theorem C3_merge:
  "merge_verdict res explanation fc_verdict fc_summary =
     (if fc_verdict = Some ''true'' \<or> fc_verdict = Some ''fake''
      then (res\<lparr>label := the fc_verdict,
                score := (if fc_verdict = Some ''true'' then 85 else 15),
                confidence := 0.9\<rparr>,
            [''Fact Check verdict: '' @ the fc_verdict] @ explanation @ take 3 fc_summary)
      else (res, explanation @ take 3 fc_summary))
   \<and> length (take 3 fc_summary) \<le> 3"
  by (cases fc_verdict) (auto simp: merge_verdict_def)

lemma merge_frame:
  "features (fst (merge_verdict res explanation fc_verdict fc_summary)) = features res"
  "insights (fst (merge_verdict res explanation fc_verdict fc_summary)) = insights res"
  by (cases fc_verdict; simp add: merge_verdict_def)+

text \<open>
  C10. Merging the verdict leaves the features and the insights of the result as
  the classifier produced them: for the merging step on any result, verdict and
  summary, and for the whole route, whose output carries the features and the
  insights of the classifier's result (the route fails only when the classifier
  does).
\<close>

theorem C10_frame:
  "features (fst (merge_verdict res explanation fc_verdict fc_summary)) = features res
   \<and> insights (fst (merge_verdict res explanation fc_verdict fc_summary)) = insights res
   \<and> (case classify_text p (take 120 (strip input) @ ''. '' @ strip input) ''en'' of
         Inl e \<Rightarrow> verify p fact_check_search db input = Inl e
       | Inr r \<Rightarrow> map_sum id out_features (verify p fact_check_search db input) = Inr (features r)
                 \<and> map_sum id out_insights (verify p fact_check_search db input) = Inr (insights r))"
proof -
  have "map_sum id out_features (verify p fact_check_search db input) = Inr (features r)
        \<and> map_sum id out_insights (verify p fact_check_search db input) = Inr (insights r)"
    if "classify_text p (take 120 (strip input) @ ''. '' @ strip input) ''en'' = Inr r" for r
    using that merge_frame [of r]
    by (simp add: verify_def Let_def split_beta)
  moreover have "verify p fact_check_search db input = Inl e"
    if "classify_text p (take 120 (strip input) @ ''. '' @ strip input) ''en'' = Inl e" for e
    using that by (simp add: verify_def Let_def)
  ultimately show ?thesis
    using merge_frame [of res explanation fc_verdict fc_summary]
    by (simp split: sum.split)
qed

lemma label_of_consistent: "spec_label_consistent (label_of sc) sc"
  by (simp add: spec_label_consistent_def label_of_def)

lemma heuristic_consistent:
  "spec_consistent (heuristic_result text sent sentences entities cats)"
  by (simp add: spec_consistent_def heuristic_result_def Let_def label_of_consistent
      spec_confidence_def)

lemma fallback_label_consistent:
  "spec_label_consistent (label (fallback_result text)) (score (fallback_result text))"
  "confidence (fallback_result text) = 0.3"
  by (simp_all add: fallback_result_def spec_label_consistent_def Let_def)

text \<open>
  C4, as stated, fails: the fallback result has score 50 and confidence 0.3, where
  the formula gives 0; a result overridden by the verdict "fake" has score 15 and
  confidence 0.9, where the formula gives 0.7.
\<close>

theorem C4_counterexample:
  "classify_text no_client_provider [] ''en'' = Inr (fallback_result [])
   \<and> \<not> spec_consistent (fallback_result [])
   \<and> \<not> spec_consistent (fst (merge_verdict ex_result [] (Some ''fake'') []))"
proof -
  have "analyze no_client_provider [] ''en'' = Inr None"
    by (simp add: analyze_def no_client_provider_def)
  then have a: "classify_text no_client_provider [] ''en'' = Inr (fallback_result [])"
    by (simp add: classify_text_def)
  have c: "spec_confidence 50 = 0" "spec_confidence 15 = 0.7"
    by (simp_all add: spec_confidence_def py_round_nd_def py_round_def)
  have b: "\<not> spec_consistent (fallback_result [])"
    by (simp add: spec_consistent_def fallback_result_def Let_def c)
  have d: "\<not> spec_consistent (fst (merge_verdict ex_result [] (Some ''fake'') []))"
    by (simp add: spec_consistent_def merge_verdict_def c)
  from a b d show ?thesis by blast
qed

text \<open>
  C4, amended. On every path the label agrees with the score under the thresholds
  ("true" iff the score is at least 70, "fake" iff it is at most 30, "uncertain"
  otherwise): for the result of the classifier, analysed or fallback, and for a
  result overridden by a verdict; a verdict that does not override leaves the
  result unchanged. The confidence is \<open>round(|score - 50| / 50, 2)\<close> on the analysed
  path; it is the constant 0.3 on the fallback path and the constant 0.9 after an
  override.
\<close>

theorem C4_consistency:
  "(case classify_text p text lang of
      Inl e \<Rightarrow> analyze p text lang = Inl e
    | Inr r \<Rightarrow>
        spec_label_consistent (label r) (score r)
        \<and> confidence r = (if analyze p text lang = Inr None then 0.3
                          else spec_confidence (score r)))
   \<and> (if fc_verdict = Some ''true'' \<or> fc_verdict = Some ''fake''
      then spec_label_consistent (label (fst (merge_verdict res explanation fc_verdict fc_summary)))
             (score (fst (merge_verdict res explanation fc_verdict fc_summary)))
           \<and> confidence (fst (merge_verdict res explanation fc_verdict fc_summary)) = 0.9
      else fst (merge_verdict res explanation fc_verdict fc_summary) = res)"
proof -
  have 1: "case classify_text p text lang of
      Inl e \<Rightarrow> analyze p text lang = Inl e
    | Inr r \<Rightarrow>
        spec_label_consistent (label r) (score r)
        \<and> confidence r = (if analyze p text lang = Inr None then 0.3
                          else spec_confidence (score r))"
    using heuristic_consistent fallback_label_consistent
    by (auto simp: classify_text_def spec_consistent_def split: sum.split option.split)
  have 2: "if fc_verdict = Some ''true'' \<or> fc_verdict = Some ''fake''
      then spec_label_consistent (label (fst (merge_verdict res explanation fc_verdict fc_summary)))
             (score (fst (merge_verdict res explanation fc_verdict fc_summary)))
           \<and> confidence (fst (merge_verdict res explanation fc_verdict fc_summary)) = 0.9
      else fst (merge_verdict res explanation fc_verdict fc_summary) = res"
    by (cases fc_verdict) (auto simp: merge_verdict_def spec_label_consistent_def)
  from 1 2 show ?thesis by blast
qed

section \<open>The fact-check summary\<close>








section \<open>The sensational terms of the insights\<close>

lemma normal_terms:
  "distinct (sensational_terms (collect_insights text sentences entities))"
  "sorted (sensational_terms (collect_insights text sentences entities))"
  "length (sensational_terms (collect_insights text sentences entities)) \<le> 10"
  "set (sensational_terms (collect_insights text sentences entities)) \<subseteq> set SENSATIONAL"
proof -
  let ?ws = "filter (\<lambda>w. w \<in> set SENSATIONAL) (findall_alpha (lower text))"
  have eq: "sensational_terms (collect_insights text sentences entities)
              = take 10 (sort (remdups ?ws))"
    by (simp add: collect_insights_def Let_def)
  show "distinct (sensational_terms (collect_insights text sentences entities))"
    unfolding eq by (simp add: distinct_take)
  show "sorted (sensational_terms (collect_insights text sentences entities))"
    unfolding eq by (simp add: sorted_wrt_take)
  show "length (sensational_terms (collect_insights text sentences entities)) \<le> 10"
    unfolding eq by simp
  have "set (take 10 (sort (remdups ?ws))) \<subseteq> set (sort (remdups ?ws))"
    by (rule set_take_subset)
  then show "set (sensational_terms (collect_insights text sentences entities)) \<subseteq> set SENSATIONAL"
    unfolding eq by auto
qed

lemma no_client_analyze: "analyze no_client_provider text lang = Inr None"
  by (simp add: analyze_def no_client_provider_def)

text \<open>
  C7. On the analysed path the sensational terms are distinct, sorted, at most
  ten, and words of the vocabulary. The fallback path returns the words in the
  order of the text, repetitions included: for the text "scandal banned scandal"
  and no client it returns "scandal", "banned", "scandal", a list that is neither
  distinct nor sorted.
\<close>

theorem C7_sensational_terms:
  "distinct (sensational_terms (collect_insights text sentences entities))
   \<and> sorted (sensational_terms (collect_insights text sentences entities))
   \<and> length (sensational_terms (collect_insights text sentences entities)) \<le> 10
   \<and> set (sensational_terms (collect_insights text sentences entities)) \<subseteq> set SENSATIONAL
   \<and> classify_text no_client_provider ''scandal banned scandal'' ''en''
       = Inr (fallback_result ''scandal banned scandal'')
   \<and> sensational_terms (insights (fallback_result ''scandal banned scandal''))
       = [''scandal'', ''banned'', ''scandal'']
   \<and> \<not> distinct [''scandal'', ''banned'', ''scandal'']
   \<and> \<not> sorted [''scandal'', ''banned'', ''scandal'']"
proof -
  have a: "classify_text no_client_provider ''scandal banned scandal'' ''en''
       = Inr (fallback_result ''scandal banned scandal'')"
    by (simp add: classify_text_def no_client_analyze)
  have "take 10 (sensational_words ''scandal banned scandal'') = [''scandal'', ''banned'', ''scandal'']"
    by code_simp
  then have b: "sensational_terms (insights (fallback_result ''scandal banned scandal''))
       = [''scandal'', ''banned'', ''scandal'']"
    by (simp add: fallback_result_def Let_def)
  have c: "\<not> distinct [''scandal'', ''banned'', ''scandal'']" by simp
  have d: "\<not> sorted [''scandal'', ''banned'', ''scandal'']" by code_simp
  from normal_terms a b c d show ?thesis by blast
qed

section \<open>The end-to-end example\<close>

lemma c8_classified:
  "take 120 (strip c8_text) @ ''. '' @ strip c8_text =
     ''BREAKING!!! Scientists SHOCKED by new miracle cure. BREAKING!!! Scientists SHOCKED by new miracle cure''"
  by code_simp

lemma c8_fallback:
  "fallback_result ''BREAKING!!! Scientists SHOCKED by new miracle cure. BREAKING!!! Scientists SHOCKED by new miracle cure'' =
     \<lparr>label = ''uncertain'', score = 50, confidence = 0.3,
      features = \<lparr>sensational_penalty = 0.55, sentiment_magnitude = 0,
                  entity_wiki_hits = 0, categories = []\<rparr>,
      insights = \<lparr>key_entities = [],
                  sensational_terms = [''miracle'', ''cure'', ''miracle'', ''cure''],
                  notable_sentences =
                    [''BREAKING!!!'', ''Scientists SHOCKED by new miracle cure.'']\<rparr>\<rparr>"
  by code_simp

lemma c8_compose:
  "compose_explanation
     (features (fallback_result ''BREAKING!!! Scientists SHOCKED by new miracle cure. BREAKING!!! Scientists SHOCKED by new miracle cure''))
     (insights (fallback_result ''BREAKING!!! Scientists SHOCKED by new miracle cure. BREAKING!!! Scientists SHOCKED by new miracle cure''))
   = c8_explanation"
  by code_simp

lemma c8_explanation_not_Nil: "c8_explanation \<noteq> []"
  by (simp add: c8_explanation_def)

lemma c8_raw: "text_red_flags c8_text = 0.45"
  by code_simp

lemma c8_generic: "generic_line \<notin> set c8_explanation"
  by code_simp

lemma c8_verify:
  assumes "analyze p (take 120 (strip c8_text) @ ''. '' @ strip c8_text) ''en'' = Inr None"
  shows "verify p no_claims_found (Saved aid) c8_text = Inr (c8_out aid)"
proof -
  let ?t = "''BREAKING!!! Scientists SHOCKED by new miracle cure. BREAKING!!! Scientists SHOCKED by new miracle cure''"
  have cl: "classify_text p ?t ''en'' = Inr (fallback_result ?t)"
    using assms unfolding c8_classified by (simp add: classify_text_def)
  have "verify p no_claims_found (Saved aid) c8_text =
          Inr \<lparr>out_article_id = Some aid, out_score = score (fallback_result ?t),
               out_label = label (fallback_result ?t),
               out_confidence = confidence (fallback_result ?t),
               out_explanation = c8_explanation,
               out_features = features (fallback_result ?t),
               out_insights = insights (fallback_result ?t)\<rparr>"
    unfolding verify_def Let_def c8_classified cl
    by (simp add: c8_compose c8_explanation_not_Nil no_claims_found_def summarize_claims_def
        merge_verdict_def)
  then show ?thesis
    unfolding c8_fallback c8_out_def by simp
qed

text \<open>
  C8, as stated, fails in its last part: for the text of the example, with no
  client of the provider, the explanation of the route does not contain the
  generic line.
\<close>

theorem C8_counterexample:
  "verify no_client_provider no_claims_found (Saved ''a1'') c8_text = Inr (c8_out ''a1'')
   \<and> generic_line \<notin> set (out_explanation (c8_out ''a1''))"
  using c8_verify [OF no_client_analyze, of "''a1''"] c8_generic
  by (simp add: c8_out_def)

text \<open>
  C8, amended. For the text of the example, when the provider is unavailable (no
  client, or the sentiment analysis raises on both attempts), no claim is found
  and the documents are stored, the route returns label "uncertain", score 50,
  confidence 0.3 and the penalty 0.55, which is at least 0.5 (the classifier
  reads the title, a full stop, a blank and the text; on the text alone the
  signal extractor gives 0.45). The explanation is the penalty note, the line of
  sensational terms and two notable lines; the generic line is not among them.
\<close>

theorem C8_end_to_end:
  assumes "\<not> client p
           \<or> (analyze_sentiment p (take 20000 (take 120 (strip c8_text) @ ''. '' @ strip c8_text))
                 (Some ''en'') = None
              \<and> analyze_sentiment p (take 20000 (take 120 (strip c8_text) @ ''. '' @ strip c8_text))
                 None = None)"
  shows "verify p no_claims_found (Saved aid) c8_text = Inr (c8_out aid)
         \<and> sensational_penalty (out_features (c8_out aid)) = 0.55
         \<and> 0.5 \<le> sensational_penalty (out_features (c8_out aid))
         \<and> out_label (c8_out aid) = ''uncertain''
         \<and> out_score (c8_out aid) = 50
         \<and> out_confidence (c8_out aid) = 0.3
         \<and> out_explanation (c8_out aid) = c8_explanation
         \<and> generic_line \<notin> set c8_explanation
         \<and> text_red_flags c8_text = 0.45"
  using c8_verify [OF analyze_unavailable [OF assms], of aid] c8_generic c8_raw
  by (simp add: c8_out_def)

theorem C8_end_to_end_witness:
  "\<not> client no_client_provider
   \<and> verify no_client_provider no_claims_found (Saved ''a1'') c8_text = Inr (c8_out ''a1'')
   \<and> sensational_penalty (out_features (c8_out ''a1'')) = 0.55
   \<and> out_explanation (c8_out ''a1'') = c8_explanation
   \<and> generic_line \<notin> set c8_explanation"
proof -
  have a: "\<not> client no_client_provider" by (simp add: no_client_provider_def)
  then have "\<not> client no_client_provider
           \<or> (analyze_sentiment no_client_provider
                 (take 20000 (take 120 (strip c8_text) @ ''. '' @ strip c8_text)) (Some ''en'') = None
              \<and> analyze_sentiment no_client_provider
                 (take 20000 (take 120 (strip c8_text) @ ''. '' @ strip c8_text)) None = None)"
    by simp
  from C8_end_to_end [OF this, of "''a1''"] a show ?thesis by simp
qed

section \<open>The explanation\<close>





lemma dedup_by_skip:
  assumes "\<not> (P x \<and> key x \<notin> seen)"
  shows "dedup_by key (filter (\<lambda>y. P y \<and> key y \<notin> seen) (x # xs))
           = dedup_by key (filter (\<lambda>y. P y \<and> key y \<notin> seen) xs)"
  using assms by auto



















end
